theory Spec2Isabelle
  imports Main
begin

section \<open>JavaScript values\<close>

text \<open>
  The values that cross the bridge of \<^verbatim>\<open>src/yellowlet.ts\<close>. An object carries its
  prototype chain (nearest prototype first) and its own properties; arrays, functions and
  the global object are objects of their own kind. Numbers are the integers and NaN, which
  is all the bridge itself ever inspects. A function carries its name, its length and its
  source text \<^verbatim>\<open>`${f}`\<close> as a list of UTF-16 code units. An object is what its
  prototype chain and properties say: the chain of a built-in prototype marks an object of
  that built-in class, \<open>Class_prototype\<close> is the prototype of a class of the program, and
  an object named twice in a list is one object.
\<close>

datatype proto =
    Object_prototype
  | Array_prototype
  | Function_prototype
  | Error_prototype
  | TypeError_prototype
  | ReferenceError_prototype
  | DOMException_prototype
  | EventTarget_prototype
  | ArrayBuffer_prototype
  | SharedArrayBuffer_prototype
  | MessagePort_prototype
  | ReadableStream_prototype
  | WritableStream_prototype
  | TransformStream_prototype
  | ImageBitmap_prototype
  | OffscreenCanvas_prototype
  | Class_prototype string

datatype jsval =
    JUndefined
  | JNull
  | JBool bool
  | JNum int
  | JNaN
  | JStr string
  | JBigInt int
  | JSymbol string
  | JFunction string nat "nat list"
  | JGlobalThis
  | JArray "jsval list"
  | JObject "proto list" "(string \<times> jsval) list"

text \<open>\<^verbatim>\<open>typeof o\<close>.\<close>

fun typeof :: "jsval \<Rightarrow> string" where
  "typeof JUndefined = ''undefined''"
| "typeof JNull = ''object''"
| "typeof (JBool b) = ''boolean''"
| "typeof (JNum n) = ''number''"
| "typeof JNaN = ''number''"
| "typeof (JStr s) = ''string''"
| "typeof (JBigInt n) = ''bigint''"
| "typeof (JSymbol d) = ''symbol''"
| "typeof (JFunction name len src) = ''function''"
| "typeof JGlobalThis = ''object''"
| "typeof (JArray xs) = ''object''"
| "typeof (JObject chain props) = ''object''"

text \<open>\<^verbatim>\<open>!!o\<close>: the falsy values are undefined, null, false, 0, NaN, the empty string and 0n.\<close>

fun truthy :: "jsval \<Rightarrow> bool" where
  "truthy JUndefined = False"
| "truthy JNull = False"
| "truthy (JBool b) = b"
| "truthy (JNum n) = (n \<noteq> 0)"
| "truthy JNaN = False"
| "truthy (JStr s) = (s \<noteq> [])"
| "truthy (JBigInt n) = (n \<noteq> 0)"
| "truthy (JSymbol d) = True"
| "truthy (JFunction name len src) = True"
| "truthy JGlobalThis = True"
| "truthy (JArray xs) = True"
| "truthy (JObject chain props) = True"

text \<open>
  \<^verbatim>\<open>P.isPrototypeOf(o)\<close>: false on a primitive, otherwise a walk up the prototype
  chain of \<open>o\<close>. Arrays, functions and the global object have the chains the language
  gives them, none of which holds a prototype this module asks about.
\<close>

fun isPrototypeOf :: "proto \<Rightarrow> jsval \<Rightarrow> bool" where
  "isPrototypeOf P (JObject chain props) = (P \<in> set chain)"
| "isPrototypeOf P (JArray xs) = (P = Array_prototype \<or> P = Object_prototype)"
| "isPrototypeOf P (JFunction name len src) = (P = Function_prototype \<or> P = Object_prototype)"
| "isPrototypeOf P JGlobalThis = (P = Object_prototype)"
| "isPrototypeOf P v = False"

section \<open>The transfer classifier\<close>

text \<open>
  \<^verbatim>\<open>typeof ImageBitmap !== "undefined"\<close> and \<^verbatim>\<open>typeof OffscreenCanvas !== "undefined"\<close>
  ask the platform whether it has these two constructors. \<open>has_Worker\<close> says whether
  the caller's thread has a global \<^verbatim>\<open>Worker\<close> class: the import of the polyfill is
  commented out at line 21, so the file itself does not provide one.
\<close>

record platform =
  has_ImageBitmap :: bool
  has_OffscreenCanvas :: bool
  has_Worker :: bool

text \<open>
  \<^verbatim>\<open>isTransferable\<close> of \<^verbatim>\<open>src/isTransferable.ts\<close>; the copy nested in
  \<^verbatim>\<open>workerMain\<close> (yellowlet.ts, lines 47 to 61) has the same body.
\<close>

definition isTransferable :: "platform \<Rightarrow> jsval \<Rightarrow> bool" where
  "isTransferable pf o' =
     (truthy o' \<and>
      typeof o' = ''object'' \<and>
      (isPrototypeOf ArrayBuffer_prototype o' \<or>
       isPrototypeOf MessagePort_prototype o' \<or>
       isPrototypeOf ReadableStream_prototype o' \<or>
       isPrototypeOf WritableStream_prototype o' \<or>
       isPrototypeOf TransformStream_prototype o' \<or>
       (has_ImageBitmap pf \<and> isPrototypeOf ImageBitmap_prototype o') \<or>
       (has_OffscreenCanvas pf \<and> isPrototypeOf OffscreenCanvas_prototype o')))"

section \<open>Messages\<close>

text \<open>
  Property access \<^verbatim>\<open>data.k\<close> on a value that is not null or undefined. The bridge reads
  the keys type, id, this, arguments, value and reason only; none of them is a property of
  a primitive, an array, a function or an inherited prototype, so only an object's own
  properties can answer.
\<close>

fun get_prop :: "jsval \<Rightarrow> string \<Rightarrow> jsval" where
  "get_prop (JObject chain props) k = (case map_of props k of None \<Rightarrow> JUndefined | Some v \<Rightarrow> v)"
| "get_prop v k = JUndefined"

text \<open>Optional chaining \<^verbatim>\<open>data?.k\<close>.\<close>

definition opt_get :: "jsval \<Rightarrow> string \<Rightarrow> jsval" where
  "opt_get data k = (if data = JUndefined \<or> data = JNull then JUndefined else get_prop data k)"

definition DataCloneError :: jsval where
  "DataCloneError =
     JObject [DOMException_prototype, Error_prototype, Object_prototype]
       [(''name'', JStr ''DataCloneError'')]"

definition TypeError :: "string \<Rightarrow> jsval" where
  "TypeError m = JObject [TypeError_prototype, Error_prototype, Object_prototype] [(''message'', JStr m)]"

definition ReferenceError :: "string \<Rightarrow> jsval" where
  "ReferenceError m =
     JObject [ReferenceError_prototype, Error_prototype, Object_prototype] [(''message'', JStr m)]"

definition InvalidCharacterError :: jsval where
  "InvalidCharacterError =
     JObject [DOMException_prototype, Error_prototype, Object_prototype]
       [(''name'', JStr ''InvalidCharacterError'')]"

subsection \<open>The structured clone\<close>

text \<open>
  \<^verbatim>\<open>postMessage(message, transfer)\<close> moves the objects of its transfer list and copies
  the rest of the message with the structured clone algorithm.
  \<^item> The objects the platform can move are array buffers, message ports, the three
    streams, image bitmaps and offscreen canvases (\<open>transferable\<close>).
  \<^item> Ports, streams and offscreen canvases can only be moved (\<open>transfer_only\<close>): one
    of them in the message and not in the transfer list raises a DataCloneError. So do a
    function, a symbol and the global object.
  \<^item> What arrives is an object of the built-in class of the original
    (\<open>received_chain\<close>): the prototype of a class of the program is dropped, so an
    instance of such a class arrives as a plain object.
  \<^item> Of the own properties, a plain object keeps all, an error its message and stack, a
    DOMException its name and message, and the other built-in objects none
    (\<open>kept_props\<close>).
  What becomes of a moved object on the sender's side is not modelled.
\<close>

definition transferable :: "jsval \<Rightarrow> bool" where
  "transferable v =
     (isPrototypeOf ArrayBuffer_prototype v \<or> isPrototypeOf MessagePort_prototype v \<or>
      isPrototypeOf ReadableStream_prototype v \<or> isPrototypeOf WritableStream_prototype v \<or>
      isPrototypeOf TransformStream_prototype v \<or> isPrototypeOf ImageBitmap_prototype v \<or>
      isPrototypeOf OffscreenCanvas_prototype v)"

definition transfer_only :: "proto list \<Rightarrow> bool" where
  "transfer_only chain =
     (MessagePort_prototype \<in> set chain \<or> ReadableStream_prototype \<in> set chain \<or>
      WritableStream_prototype \<in> set chain \<or> TransformStream_prototype \<in> set chain \<or>
      OffscreenCanvas_prototype \<in> set chain)"

definition received_chain :: "proto list \<Rightarrow> proto list" where
  "received_chain chain =
     (if MessagePort_prototype \<in> set chain
        then [MessagePort_prototype, EventTarget_prototype, Object_prototype]
      else if ReadableStream_prototype \<in> set chain
        then [ReadableStream_prototype, Object_prototype]
      else if WritableStream_prototype \<in> set chain
        then [WritableStream_prototype, Object_prototype]
      else if TransformStream_prototype \<in> set chain
        then [TransformStream_prototype, Object_prototype]
      else if OffscreenCanvas_prototype \<in> set chain
        then [OffscreenCanvas_prototype, EventTarget_prototype, Object_prototype]
      else if ImageBitmap_prototype \<in> set chain
        then [ImageBitmap_prototype, Object_prototype]
      else if ArrayBuffer_prototype \<in> set chain
        then [ArrayBuffer_prototype, Object_prototype]
      else if SharedArrayBuffer_prototype \<in> set chain
        then [SharedArrayBuffer_prototype, Object_prototype]
      else if DOMException_prototype \<in> set chain
        then [DOMException_prototype, Error_prototype, Object_prototype]
      else if TypeError_prototype \<in> set chain
        then [TypeError_prototype, Error_prototype, Object_prototype]
      else if ReferenceError_prototype \<in> set chain
        then [ReferenceError_prototype, Error_prototype, Object_prototype]
      else if Error_prototype \<in> set chain
        then [Error_prototype, Object_prototype]
      else [Object_prototype])"

definition kept_props :: "proto list \<Rightarrow> (string \<times> jsval) list \<Rightarrow> (string \<times> jsval) list" where
  "kept_props chain props =
     (if received_chain chain = [Object_prototype] then props
      else if DOMException_prototype \<in> set (received_chain chain)
        then filter (\<lambda>p. fst p = ''name'' \<or> fst p = ''message'') props
      else if Error_prototype \<in> set (received_chain chain)
        then filter (\<lambda>p. fst p = ''message'' \<or> fst p = ''stack'') props
      else [])"

lemma kept_props_size [termination_simp]:
  "(k, v) \<in> set (kept_props chain props) \<Longrightarrow> size v < Suc (size_list (\<lambda>p. Suc (size (snd p))) props)"
  by (auto simp: kept_props_def less_Suc_eq_le size_list_estimation' split: if_splits
      intro!: size_list_estimation' [where x = "(k, v)" and y = "size v"])

text \<open>
  \<open>structuredClone transfer v\<close> is what arrives for \<open>v\<close>, or \<open>None\<close> when the
  algorithm raises.
\<close>

fun structuredClone :: "jsval list \<Rightarrow> jsval \<Rightarrow> jsval option" where
  "structuredClone transfer (JSymbol d) = None"
| "structuredClone transfer (JFunction name len src) = None"
| "structuredClone transfer JGlobalThis = None"
| "structuredClone transfer (JArray xs) =
     map_option JArray (those (map (structuredClone transfer) xs))"
| "structuredClone transfer (JObject chain props) =
     (if JObject chain props \<in> set transfer then Some (JObject (received_chain chain) [])
      else if transfer_only chain then None
      else map_option
             (\<lambda>vs. JObject (received_chain chain) (zip (map fst (kept_props chain props)) vs))
             (those (map (structuredClone transfer) (map snd (kept_props chain props)))))"
| "structuredClone transfer v = Some v"

text \<open>
  A queue entry is a message as it arrives, with the transfer list it was posted with.
  \<^verbatim>\<open>postMessage\<close> raises a DataCloneError when the transfer list holds something that
  cannot be moved or names an object twice, and when the clone raises.
\<close>

type_synonym posted = "jsval \<times> jsval list"

definition postMessage :: "posted list \<Rightarrow> jsval \<Rightarrow> jsval list \<Rightarrow> jsval + posted list" where
  "postMessage queue message transfer =
     (if list_all transferable transfer \<and> distinct transfer then
        (case structuredClone transfer message of
           None \<Rightarrow> Inl DataCloneError
         | Some received \<Rightarrow> Inr (queue @ [(received, transfer)]))
      else Inl DataCloneError)"

text \<open>
  The values that the clone hands over unchanged: the primitives but symbols, and arrays
  and plain objects of such values.
\<close>

fun plain :: "jsval \<Rightarrow> bool" where
  "plain (JSymbol d) = False"
| "plain (JFunction name len src) = False"
| "plain JGlobalThis = False"
| "plain (JArray xs) = list_all plain xs"
| "plain (JObject chain props) = (chain = [Object_prototype] \<and> list_all plain (map snd props))"
| "plain v = True"

text \<open>The four message shapes of yellowlet.ts, lines 24 to 44.\<close>

definition portForWorker :: jsval where
  "portForWorker = JObject [MessagePort_prototype, EventTarget_prototype, Object_prototype] []"

definition signalSharedBuffer :: jsval where
  "signalSharedBuffer = JObject [SharedArrayBuffer_prototype, Object_prototype] []"

definition OpenMessageData :: jsval where
  "OpenMessageData =
     JObject [Object_prototype]
       [(''type'', JStr ''open''), (''port'', portForWorker),
        (''signalSharedBuffer'', signalSharedBuffer)]"

definition CallMessageData :: "string \<Rightarrow> jsval \<Rightarrow> jsval list \<Rightarrow> jsval" where
  "CallMessageData id' that args =
     JObject [Object_prototype]
       [(''type'', JStr ''call''), (''id'', JStr id'), (''this'', that),
        (''arguments'', JArray args)]"

definition FulfilledMessageData :: "jsval \<Rightarrow> jsval \<Rightarrow> jsval" where
  "FulfilledMessageData id' v =
     JObject [Object_prototype] [(''type'', JStr ''fulfilled''), (''id'', id'), (''value'', v)]"

definition RejectedMessageData :: "jsval \<Rightarrow> jsval \<Rightarrow> jsval" where
  "RejectedMessageData id' reason =
     JObject [Object_prototype] [(''type'', JStr ''rejected''), (''id'', id'), (''reason'', reason)]"

section \<open>The session: worker, channel, signal\<close>

text \<open>
  What \<^verbatim>\<open>await f.call(that, ...args)\<close> comes to: the wrapped function applied to a
  this-value and arguments resolves with a value, rejects (or throws) with a reason, or
  never settles.
\<close>

datatype settlement = Resolves jsval | Rejects jsval | NeverSettles

type_synonym computation = "jsval \<Rightarrow> jsval list \<Rightarrow> settlement"

text \<open>
  All that one call of \<^verbatim>\<open>yellowlet(f)\<close> creates:
  \<^item> the worker thread, which runs \<^verbatim>\<open>workerMain\<close> on the function its script text
    evaluates to (\<open>worker_f\<close>), and is alive until \<^verbatim>\<open>worker.terminate()\<close>;
  \<^item> \<open>worker_inbox\<close>, what \<^verbatim>\<open>worker.postMessage\<close> delivers to the worker's
    \<^verbatim>\<open>globalThis\<close>, and \<open>parent_inbox\<close>, what the worker's
    \<^verbatim>\<open>globalThis.postMessage\<close> delivers to the \<^verbatim>\<open>Worker\<close> object of the caller's thread
    (the module puts no listener on that object and never reads what arrives there);
  \<^item> the message channel: \<open>worker_port\<close> holds what was posted on \<^verbatim>\<open>port\<close> and waits
    at \<^verbatim>\<open>portForWorker\<close>; \<open>caller_port\<close> holds what was posted on
    \<^verbatim>\<open>portForWorker\<close> and waits at \<^verbatim>\<open>port\<close>;
  \<^item> \<open>signal\<close>, the cell \<^verbatim>\<open>signal[0]\<close> of the shared buffer
    (0 available, 1 pending, 2 resolved);
  \<^item> \<open>listening\<close>: the worker has handled the open message and listens on its port;
  \<^item> the name and length given to \<^verbatim>\<open>run\<close>, and its entry in the finalization
    registry.
\<close>

record session =
  worker_f :: computation
  worker_name :: string
  terminated :: bool
  listening :: bool
  signal :: int
  worker_inbox :: "posted list"
  parent_inbox :: "posted list"
  worker_port :: "posted list"
  caller_port :: "posted list"
  run_name :: string
  run_length :: nat
  registered :: bool

subsection \<open>The worker side: workerMain\<close>

text \<open>
  Spreading \<^verbatim>\<open>...args\<close>: an array gives its elements, a string its characters, and
  a value that is not iterable raises a TypeError (inside the \<^verbatim>\<open>try\<close>).
\<close>

fun spread :: "jsval \<Rightarrow> jsval list option" where
  "spread (JArray xs) = Some xs"
| "spread (JStr s) = Some (map (\<lambda>c. JStr [c]) s)"
| "spread v = None"

text \<open>
  The settle message goes out with \<^verbatim>\<open>globalThis.postMessage\<close> (lines 74 and 83), that
  is to the caller's \<^verbatim>\<open>Worker\<close> object, and the signal is set to 2 after it. When the
  message cannot be cloned the handler ends there, with the signal untouched.
\<close>

definition settle :: "platform \<Rightarrow> session \<Rightarrow> jsval \<Rightarrow> jsval \<Rightarrow> session" where
  "settle pf w message payload =
     (case postMessage (parent_inbox w) message (filter (isTransferable pf) [payload]) of
        Inl e \<Rightarrow> w
      | Inr q \<Rightarrow> w\<lparr>parent_inbox := q, signal := 2\<rparr>)"

text \<open>
  The listener on the worker's port (lines 68 to 90), run on one message. Destructuring
  null or undefined (line 69, before the \<^verbatim>\<open>try\<close>) ends the handler at once; a
  computation that never settles leaves it waiting at line 72. The text of the TypeError
  of a spread that fails is the engine's and is not modelled; nor is what the host does
  to a thread whose handler ended in an exception: the worker goes on serving.
\<close>

definition onCall :: "platform \<Rightarrow> session \<Rightarrow> jsval \<Rightarrow> session" where
  "onCall pf w data =
     (if data = JUndefined \<or> data = JNull then w
      else
        let id' = get_prop data ''id'';
            that = get_prop data ''this'';
            args = get_prop data ''arguments''
        in case (case spread args of
                   None \<Rightarrow> Rejects (TypeError ''args is not iterable'')
                 | Some xs \<Rightarrow> worker_f w that xs) of
             Rejects reason \<Rightarrow> settle pf w (RejectedMessageData id' reason) reason
           | Resolves v \<Rightarrow> settle pf w (FulfilledMessageData id' v) v
           | NeverSettles \<Rightarrow> w)"

text \<open>The listener on the worker's \<^verbatim>\<open>globalThis\<close> (lines 63 to 93).\<close>

definition onMessage :: "session \<Rightarrow> jsval \<Rightarrow> session" where
  "onMessage w data = (if opt_get data ''type'' = JStr ''open'' then w\<lparr>listening := True\<rparr> else w)"

text \<open>
  One turn of the worker's event loop: the oldest message of its inbox, else (once it
  listens) the oldest message of its port. A terminated worker, and one with nothing to
  handle, takes no turn.
\<close>

definition worker_turn :: "platform \<Rightarrow> session \<Rightarrow> session option" where
  "worker_turn pf w =
     (if terminated w then None
      else case worker_inbox w of
        (data, transfer) # rest \<Rightarrow> Some (onMessage (w\<lparr>worker_inbox := rest\<rparr>) data)
      | [] \<Rightarrow>
          (if listening w then
             (case worker_port w of
                (data, transfer) # rest \<Rightarrow> Some (onCall pf (w\<lparr>worker_port := rest\<rparr>) data)
              | [] \<Rightarrow> None)
           else None))"

definition pending_events :: "session \<Rightarrow> nat" where
  "pending_events w = length (worker_inbox w) + length (worker_port w)"

lemma settle_pending [simp]: "pending_events (settle pf w m p) = pending_events w"
  by (simp add: settle_def pending_events_def split: sum.splits)

lemma onCall_pending [simp]: "pending_events (onCall pf w data) = pending_events w"
  by (simp add: onCall_def Let_def split: settlement.splits option.splits)

lemma onMessage_pending [simp]: "pending_events (onMessage w data) = pending_events w"
  by (simp add: onMessage_def pending_events_def)

lemma worker_turn_pending:
  "worker_turn pf w = Some w' \<Longrightarrow> pending_events w' < pending_events w"
  by (auto simp: worker_turn_def split: if_splits list.splits)
    (simp_all add: pending_events_def)

text \<open>
  \<^verbatim>\<open>Atomics.wait(signal, 0, 1)\<close>: the caller sleeps while the cell holds 1, and the
  worker takes its turns meanwhile. The answer is \<open>True\<close> with the state in which the
  caller wakes, or \<open>False\<close> when the worker has nothing left to do and the cell still
  holds 1: the caller then sleeps for ever.
\<close>

function Atomics_wait :: "platform \<Rightarrow> session \<Rightarrow> bool \<times> session" where
  "Atomics_wait pf w =
     (if signal w \<noteq> 1 then (True, w)
      else case worker_turn pf w of
        None \<Rightarrow> (False, w)
      | Some w' \<Rightarrow> Atomics_wait pf w')"
  by pat_completeness auto
termination
  by (relation "measure (\<lambda>(pf, w). pending_events w)") (auto dest: worker_turn_pending)

declare Atomics_wait.simps [simp del]

subsection \<open>The caller side: run\<close>

text \<open>A call of the wrapper returns a value, throws a value, or never comes back.\<close>

datatype outcome = Returns jsval | Throws jsval | Blocks

text \<open>
  \<^verbatim>\<open>receiveMessageOnPort(port)\<close>: undefined when nothing waits at the caller's port,
  else a container of the oldest message, which leaves the queue.
\<close>

definition receiveMessageOnPort :: "session \<Rightarrow> jsval option \<times> session" where
  "receiveMessageOnPort w =
     (case caller_port w of
        [] \<Rightarrow> (None, w)
      | (message, transfer) # rest \<Rightarrow> (Some message, w\<lparr>caller_port := rest\<rparr>))"

text \<open>
  Lines 174 to 187, on what \<^verbatim>\<open>receiveMessageOnPort\<close> gave. Reading \<^verbatim>\<open>.message\<close> of
  an undefined container raises the engine's TypeError (\<open>missing_container\<close>); the two
  \<^verbatim>\<open>throw {}\<close> raise a fresh empty object.
\<close>

definition missing_container :: jsval where
  "missing_container = TypeError ''Cannot read properties of undefined (reading 'message')''"

definition empty_object :: jsval where
  "empty_object = JObject [Object_prototype] []"

definition run_result :: "string \<Rightarrow> jsval option \<Rightarrow> outcome" where
  "run_result id' messageContainer =
     (case messageContainer of
        None \<Rightarrow> Throws missing_container
      | Some data \<Rightarrow>
          (if opt_get data ''id'' = JStr id' then
             (if get_prop data ''type'' = JStr ''fulfilled'' then Returns (get_prop data ''value'')
              else if get_prop data ''type'' = JStr ''rejected'' then Throws (get_prop data ''reason'')
              else Throws empty_object)
           else Throws empty_object))"

text \<open>
  The message of lines 158 to 165: the global object as this-value is replaced by
  undefined.
\<close>

definition call_message :: "string \<Rightarrow> jsval \<Rightarrow> jsval list \<Rightarrow> jsval" where
  "call_message id' this args =
     (let that = (if this = JGlobalThis then JUndefined else this)
      in CallMessageData id' that args)"

text \<open>
  \<^verbatim>\<open>run\<close> (lines 154 to 188), in the order of its statements. \<open>id'\<close> is the string
  that \<^verbatim>\<open>Math.random().toString(36).slice(2, 6)\<close> gave this call, and \<open>pf\<close> is the
  worker's platform.

  \<open>classify\<close> is what the name \<^verbatim>\<open>isTransferable\<close> of line 166 denotes where
  \<^verbatim>\<open>run\<close> stands. yellowlet.ts declares that name inside \<^verbatim>\<open>workerMain\<close> only and
  imports no such name, so in the file as it is the name is unbound (\<open>None\<close>) and
  evaluating it raises a ReferenceError; with \<^verbatim>\<open>src/isTransferable.ts\<close> imported, as
  the worker module of the repository does, it is \<open>Some (isTransferable pf')\<close> for the
  caller's platform \<open>pf'\<close>.

  \<open>run_send\<close> is lines 155 to 167: the signal is set to 1, then the arguments of
  \<^verbatim>\<open>port.postMessage\<close> are evaluated and the call message is posted. It gives the
  exception raised there, if any, and the state it leaves.
\<close>

type_synonym binding = "(jsval \<Rightarrow> bool) option"

definition run_send ::
  "binding \<Rightarrow> session \<Rightarrow> string \<Rightarrow> jsval \<Rightarrow> jsval list \<Rightarrow> jsval option \<times> session"
where
  "run_send classify w id' this args =
     (let w1 = w\<lparr>signal := 1\<rparr>;
          message = call_message id' this args
      in case classify of
           None \<Rightarrow> (Some (ReferenceError ''isTransferable is not defined''), w1)
         | Some isTransferable' \<Rightarrow>
             (case postMessage (worker_port w1) message (filter isTransferable' args) of
                Inl e \<Rightarrow> (Some e, w1)
              | Inr q \<Rightarrow> (None, w1\<lparr>worker_port := q\<rparr>)))"

definition run ::
  "binding \<Rightarrow> platform \<Rightarrow> session \<Rightarrow> string \<Rightarrow> jsval \<Rightarrow> jsval list \<Rightarrow> outcome \<times> session"
where
  "run classify pf w id' this args =
     (case run_send classify w id' this args of
        (Some e, w1) \<Rightarrow> (Throws e, w1)
      | (None, w1) \<Rightarrow>
          (case Atomics_wait pf w1 of
             (False, w2) \<Rightarrow> (Blocks, w2)
           | (True, w2) \<Rightarrow>
               (let w3 = w2\<lparr>signal := 0\<rparr>
                in case receiveMessageOnPort w3 of
                     (messageContainer, w4) \<Rightarrow> (run_result id' messageContainer, w4))))"

text \<open>
  A session whose worker can take a call: it is alive, nothing waits at its port, and it
  either listens on the port already or still has the open message in its inbox, as the
  factory leaves it.
\<close>

definition serving :: "session \<Rightarrow> bool" where
  "serving w =
     (\<not> terminated w \<and> worker_port w = [] \<and>
      (if listening w then worker_inbox w = []
       else worker_inbox w = [(OpenMessageData, [portForWorker])]))"

subsection \<open>The factory: yellowlet\<close>

text \<open>\<^verbatim>\<open>`${f}`\<close>, \<^verbatim>\<open>f.name\<close> and \<^verbatim>\<open>f.length\<close> of a function.\<close>

fun function_source :: "jsval \<Rightarrow> nat list" where
  "function_source (JFunction name len src) = src"
| "function_source v = []"

fun function_name :: "jsval \<Rightarrow> string" where
  "function_name (JFunction name len src) = name"
| "function_name v = []"

fun function_length :: "jsval \<Rightarrow> nat" where
  "function_length (JFunction name len src) = len"
| "function_length v = 0"

text \<open>
  The host is the list of the sessions created so far, one per worker thread; a wrapper
  is the index of its session. \<^verbatim>\<open>yellowlet(f)\<close> (lines 122 to 195) takes, beside
  \<open>f\<close>, the computation \<open>body\<close> that the script text \<^verbatim>\<open>(${workerMain})(${f})\<close> hands
  to \<^verbatim>\<open>workerMain\<close> in the worker, and the caller's platform \<open>pf\<close>.

  Line 129 evaluates \<^verbatim>\<open>Worker\<close> first, which raises a ReferenceError where the platform
  has no such class, and then its arguments: \<^verbatim>\<open>btoa\<close> raises an InvalidCharacterError
  on a text with a code unit above 255. The text of \<^verbatim>\<open>workerMain\<close> and the brackets
  around it are ASCII, so it is the text of \<open>f\<close> that decides. Both exceptions leave
  the factory before anything is created.
\<close>

definition btoa_raises :: "nat list \<Rightarrow> bool" where
  "btoa_raises text = list_ex (\<lambda>c. 255 < c) text"

type_synonym host = "session list"

definition new_Worker :: "jsval \<Rightarrow> computation \<Rightarrow> session" where
  "new_Worker f body =
     \<lparr>worker_f = body, worker_name = ''greenlet:'' @ function_name f,
      terminated = False, listening = False, signal = 0,
      worker_inbox = [], parent_inbox = [], worker_port = [], caller_port = [],
      run_name = [], run_length = 0, registered = False\<rparr>"

definition yellowlet ::
  "platform \<Rightarrow> host \<Rightarrow> jsval \<Rightarrow> computation \<Rightarrow> (jsval + nat) \<times> host"
where
  "yellowlet pf h f body =
     (if typeof f \<noteq> ''function'' then (Inl (TypeError ''f is not a function''), h)
      else if \<not> has_Worker pf then (Inl (ReferenceError ''Worker is not defined''), h)
      else if btoa_raises (function_source f) then (Inl InvalidCharacterError, h)
      else
        let worker = new_Worker f body
        in case postMessage (worker_inbox worker) OpenMessageData [portForWorker] of
             Inl e \<Rightarrow> (Inl e, h @ [worker])
           | Inr q \<Rightarrow>
               (Inr (length h),
                h @ [worker\<lparr>worker_inbox := q, run_name := function_name f,
                            run_length := function_length f, registered := True\<rparr>]))"

text \<open>Calling the wrapper \<open>k\<close>; \<open>None\<close> when the host has no such wrapper.\<close>

definition invoke ::
  "binding \<Rightarrow> platform \<Rightarrow> host \<Rightarrow> nat \<Rightarrow> string \<Rightarrow> jsval \<Rightarrow> jsval list \<Rightarrow> (outcome \<times> host) option"
where
  "invoke classify pf h k id' this args =
     (if k < length h then
        (case run classify pf (h ! k) id' this args of
           (out, w) \<Rightarrow> Some (out, h[k := w]))
      else None)"

text \<open>
  The callback of the finalization registry (lines 96 to 98), the one place of the module
  that calls \<^verbatim>\<open>worker.terminate()\<close>: it runs when the wrapper \<open>k\<close> has been collected.
\<close>

definition finalize :: "host \<Rightarrow> nat \<Rightarrow> host" where
  "finalize h k = (if k < length h \<and> registered (h ! k) then h[k := (h ! k)\<lparr>terminated := True\<rparr>] else h)"

text \<open>
  What can happen to a host from outside: a call of the factory, a call of a wrapper, the
  collection of a wrapper, and time going by. One platform stands for the caller's thread
  and the workers. The module sets no timer (there is no
  \<^verbatim>\<open>setTimeout\<close> or \<^verbatim>\<open>setInterval\<close> in it), so no code of it runs when time goes by.
\<close>

datatype event =
    Wrap jsval computation
  | Call nat string jsval "jsval list"
  | Collect nat
  | Elapse nat

fun step :: "binding \<Rightarrow> platform \<Rightarrow> host \<Rightarrow> event \<Rightarrow> host" where
  "step classify pf h (Wrap f body) = snd (yellowlet pf h f body)"
| "step classify pf h (Call k id' this args) =
     (case invoke classify pf h k id' this args of None \<Rightarrow> h | Some (out, h') \<Rightarrow> h')"
| "step classify pf h (Collect k) = finalize h k"
| "step classify pf h (Elapse t) = h"

fun steps :: "binding \<Rightarrow> platform \<Rightarrow> host \<Rightarrow> event list \<Rightarrow> host" where
  "steps classify pf h [] = h"
| "steps classify pf h (e # es) = steps classify pf (step classify pf h e) es"

fun is_Collect :: "event \<Rightarrow> bool" where
  "is_Collect (Collect k) = True"
| "is_Collect e = False"

section \<open>The scenarios\<close>

text \<open>
  The two computations of the scenarios, as the worker evaluates them:
  \<^verbatim>\<open>x => x * 2\<close> (on a number; every other case of the multiplication is left at NaN,
  no scenario reaches it) and \<^verbatim>\<open>() => { throw new Error("boom") }\<close>. Both are
  arrow functions written in place, so their name is empty; their lengths are 1 and 0.
  A third function, \<^verbatim>\<open>function g() {}\<close>, serves as an argument that cannot be cloned.
  The platform is Node.js with the \<^verbatim>\<open>Worker\<close> polyfill that the header of the file
  asks for; it has neither ImageBitmap nor OffscreenCanvas.
\<close>

definition double_function :: jsval where
  "double_function = JFunction [] 1 [120, 32, 61, 62, 32, 120, 32, 42, 32, 50]"

definition boom_function :: jsval where
  "boom_function =
     JFunction [] 0
       [40, 41, 32, 61, 62, 32, 123, 32, 116, 104, 114, 111, 119, 32, 110, 101, 119, 32, 69,
        114, 114, 111, 114, 40, 34, 98, 111, 111, 109, 34, 41, 32, 125]"

definition g_function :: jsval where
  "g_function =
     JFunction ''g'' 0 [102, 117, 110, 99, 116, 105, 111, 110, 32, 103, 40, 41, 32, 123, 125]"

definition double :: computation where
  "double this args =
     (case args of JNum x # rest \<Rightarrow> Resolves (JNum (x * 2)) | _ \<Rightarrow> Resolves JNaN)"

definition boom_error :: jsval where
  "boom_error = JObject [Error_prototype, Object_prototype] [(''message'', JStr ''boom'')]"

definition boom :: computation where
  "boom this args = Rejects boom_error"


definition return_this_function :: jsval where
  "return_this_function =
     JFunction [] 0
       [102, 117, 110, 99, 116, 105, 111, 110, 32, 40, 41, 32, 123, 32,
        114, 101, 116, 117, 114, 110, 32, 116, 104, 105, 115, 32, 125]"

definition node :: platform where
  "node = \<lparr>has_ImageBitmap = False, has_OffscreenCanvas = False, has_Worker = True\<rparr>"

definition double_host :: host where
  "double_host = snd (yellowlet node [] double_function double)"

definition boom_host :: host where
  "boom_host = snd (yellowlet node [] boom_function boom)"

section \<open>Properties of the transfer classifier\<close>

text \<open>
  C5. The classifier is a function of the platform and the value alone. It answers true
  exactly on an object whose prototype chain holds the prototype of ArrayBuffer,
  MessagePort, ReadableStream, WritableStream or TransformStream, or that of ImageBitmap or
  OffscreenCanvas when the platform has it; on null, undefined, every primitive, every
  function, every array, the global object and every other object it answers false.
\<close>

theorem isTransferable_characterisation:
  "isTransferable pf v =
     (case v of
        JObject chain props \<Rightarrow>
          ArrayBuffer_prototype \<in> set chain \<or>
          MessagePort_prototype \<in> set chain \<or>
          ReadableStream_prototype \<in> set chain \<or>
          WritableStream_prototype \<in> set chain \<or>
          TransformStream_prototype \<in> set chain \<or>
          (has_ImageBitmap pf \<and> ImageBitmap_prototype \<in> set chain) \<or>
          (has_OffscreenCanvas pf \<and> OffscreenCanvas_prototype \<in> set chain)
      | _ \<Rightarrow> False)"
  by (cases v) (simp_all add: isTransferable_def)

section \<open>What the worker and the wait leave alone\<close>

lemma worker_turn_keeps:
  assumes "worker_turn pf w = Some w'"
  shows "caller_port w' = caller_port w" and "terminated w' = terminated w"
    and "signal w' = signal w \<or> signal w' = 2"
  using assms
  by (auto simp: worker_turn_def onMessage_def onCall_def settle_def postMessage_def Let_def
      split: if_splits list.splits settlement.splits option.splits)

lemma Atomics_wait_cases:
  assumes "Atomics_wait pf w = (b, w')"
  obtains "signal w \<noteq> 1" and "b" and "w' = w"
  | "signal w = 1" and "worker_turn pf w = None" and "\<not> b" and "w' = w"
  | w1 where "signal w = 1" and "worker_turn pf w = Some w1" and "Atomics_wait pf w1 = (b, w')"
  using assms by (subst (asm) Atomics_wait.simps) (auto split: if_splits option.splits)

text \<open>
  The wait changes neither the caller's port nor the life of the worker; the signal it
  leaves is the one it found or 2; and the caller wakes exactly when the signal is not 1.
\<close>

lemma Atomics_wait_keeps:
  "Atomics_wait pf w = (b, w') \<Longrightarrow>
     caller_port w' = caller_port w \<and> terminated w' = terminated w \<and>
     (signal w' = signal w \<or> signal w' = 2) \<and> b = (signal w' \<noteq> 1)"
proof (induction pf w rule: Atomics_wait.induct)
  case (1 pf w)
  from "1.prems" show ?case
  proof (cases rule: Atomics_wait_cases)
    case (3 w1)
    from 3 "1.IH" [of w1]
    have "caller_port w' = caller_port w1 \<and> terminated w' = terminated w1 \<and>
      (signal w' = signal w1 \<or> signal w' = 2) \<and> b = (signal w' \<noteq> 1)"
      by simp
    with worker_turn_keeps [OF 3(2)] show ?thesis
      by auto
  qed auto
qed

lemma run_keeps:
  assumes "run classify pf w id' this args = (out, w')"
  shows "terminated w' = terminated w" and "caller_port w = [] \<Longrightarrow> caller_port w' = []"
  using assms
  by (auto simp: run_def run_send_def postMessage_def receiveMessageOnPort_def Let_def
      split: sum.splits prod.splits option.splits bool.splits if_splits list.splits
      dest!: Atomics_wait_keeps)

section \<open>The signal word\<close>

text \<open>
  Whatever the signal held before, a call leaves it at 0 or at 1, and at 0 whenever the
  call got as far as posting its message and came back.
\<close>

lemma run_signal:
  assumes "run classify pf w id' this args = (out, w')"
  shows "signal w' = 0 \<or> signal w' = 1"
    and "fst (run_send classify w id' this args) = None \<Longrightarrow> out \<noteq> Blocks \<Longrightarrow> signal w' = 0"
  using assms
  by (auto simp: run_def run_send_def postMessage_def receiveMessageOnPort_def Let_def
      split: sum.splits prod.splits option.splits bool.splits if_splits list.splits
      dest!: Atomics_wait_keeps)

text \<open>The worker sets the signal to 2 only together with a settle message it has posted.\<close>

lemma onCall_signal:
  "signal (onCall pf w data) = signal w \<or>
   (signal (onCall pf w data) = 2 \<and>
    length (parent_inbox (onCall pf w data)) = Suc (length (parent_inbox w)))"
  by (simp add: onCall_def settle_def postMessage_def Let_def
      split: settlement.splits option.splits)

text \<open>Between calls the signal of every session is 0 or 1, from the factory on.\<close>

lemma steps_signal:
  "list_all (\<lambda>w. signal w = 0 \<or> signal w = 1) h \<Longrightarrow>
   list_all (\<lambda>w. signal w = 0 \<or> signal w = 1) (steps classify pf h es)"
proof (induction es arbitrary: h)
  case Nil
  then show ?case by simp
next
  case (Cons e es)
  have "list_all (\<lambda>w. signal w = 0 \<or> signal w = 1) (step classify pf h e)"
  proof (cases e)
    case (Wrap f body)
    with Cons.prems show ?thesis
      by (simp add: yellowlet_def new_Worker_def postMessage_def Let_def split: sum.splits)
  next
    case (Call k id' this args)
    show ?thesis
    proof (cases "invoke classify pf h k id' this args")
      case None
      with Call Cons.prems show ?thesis by simp
    next
      case (Some r)
      then obtain out w' where r: "run classify pf (h ! k) id' this args = (out, w')"
        and h': "r = (out, h[k := w'])"
        by (auto simp: invoke_def split: if_splits prod.splits)
      from run_signal(1) [OF r] Cons.prems have "list_all (\<lambda>w. signal w = 0 \<or> signal w = 1) (h[k := w'])"
        by (auto simp: list_all_iff dest!: subsetD [OF set_update_subset_insert])
      with Call Some h' show ?thesis by simp
    qed
  next
    case (Collect k)
    with Cons.prems show ?thesis
      by (auto simp: finalize_def list_all_iff list_all_length
          dest!: subsetD [OF set_update_subset_insert])
  next
    case (Elapse t)
    with Cons.prems show ?thesis by simp
  qed
  then show ?case
    by (simp add: Cons.IH)
qed

section \<open>Plain values and serving workers\<close>

text \<open>
  The clone hands a plain value over as it is, the classifier of the module selects none
  of them for the transfer list, and so \<^verbatim>\<open>postMessage\<close> delivers a plain message
  unchanged.
\<close>

lemma those_map_id:
  "list_all (\<lambda>x. f x = Some x) xs \<Longrightarrow> those (map f xs) = Some xs"
  by (induction xs) auto

lemma plain_structuredClone: "plain v \<Longrightarrow> structuredClone [] v = Some v"
proof (induction v rule: plain.induct)
  case (4 xs)
  then have "list_all (\<lambda>x. structuredClone [] x = Some x) xs"
    by (auto simp: list_all_iff)
  then show ?case
    by (simp add: those_map_id)
next
  case (5 chain props)
  then have "list_all (\<lambda>x. structuredClone [] x = Some x) (map snd props)"
    by (auto simp: list_all_iff)
  then have "those (map (structuredClone []) (map snd props)) = Some (map snd props)"
    by (rule those_map_id)
  with 5 show ?case
    by (simp add: transfer_only_def received_chain_def kept_props_def zip_map_fst_snd)
qed simp_all

lemma plain_not_isTransferable: "plain v \<Longrightarrow> \<not> isTransferable pf v"
  by (cases v) (auto simp: isTransferable_def)

lemma filter_isTransferable_plain:
  "list_all plain args \<Longrightarrow> filter (isTransferable pf) args = []"
  by (induction args) (auto simp: plain_not_isTransferable)

lemma postMessage_plain: "plain m \<Longrightarrow> postMessage q m [] = Inr (q @ [(m, [])])"
  by (simp add: postMessage_def plain_structuredClone)

lemma plain_CallMessageData:
  "plain that \<Longrightarrow> list_all plain args \<Longrightarrow> plain (CallMessageData id' that args)"
  by (simp add: CallMessageData_def)

text \<open>The open message arrives at the worker as it was built, its port moved.\<close>

lemma structuredClone_OpenMessageData:
  "structuredClone [portForWorker] OpenMessageData = Some OpenMessageData"
  by (simp add: OpenMessageData_def portForWorker_def signalSharedBuffer_def transfer_only_def
      received_chain_def kept_props_def)

lemma onCall_fields:
  "terminated (onCall pf w m) = terminated w"
  "listening (onCall pf w m) = listening w"
  "worker_inbox (onCall pf w m) = worker_inbox w"
  "worker_port (onCall pf w m) = worker_port w"
  "caller_port (onCall pf w m) = caller_port w"
  by (simp_all add: onCall_def settle_def postMessage_def Let_def
      split: settlement.splits option.splits)



text \<open>
  While the caller waits, a serving worker handles the open message if it has not yet,
  then the one call message; the caller wakes if that set the signal, and sleeps for ever
  if it did not.
\<close>

lemma Atomics_wait_serving:
  assumes "serving w"
  shows "Atomics_wait pf (w\<lparr>signal := 1, worker_port := [(m, tr)]\<rparr>) =
    (signal (onCall pf (w\<lparr>signal := 1, listening := True, worker_inbox := [], worker_port := []\<rparr>) m) \<noteq> 1,
     onCall pf (w\<lparr>signal := 1, listening := True, worker_inbox := [], worker_port := []\<rparr>) m)"
proof -
  let ?w1 = "w\<lparr>signal := 1, listening := True, worker_inbox := [], worker_port := [(m, tr)]\<rparr>"
  let ?w2 = "onCall pf (w\<lparr>signal := 1, listening := True, worker_inbox := [], worker_port := []\<rparr>) m"
  from assms have a: "Atomics_wait pf (w\<lparr>signal := 1, worker_port := [(m, tr)]\<rparr>) = Atomics_wait pf ?w1"
  proof (cases "listening w")
    case True
    with assms have "w\<lparr>signal := 1, worker_port := [(m, tr)]\<rparr> = ?w1"
      by (simp add: serving_def)
    then show ?thesis by simp
  next
    case False
    with assms have "worker_turn pf (w\<lparr>signal := 1, worker_port := [(m, tr)]\<rparr>) = Some ?w1"
      by (cases w)
        (simp add: serving_def worker_turn_def onMessage_def opt_get_def OpenMessageData_def)
    then show ?thesis
      by (subst Atomics_wait.simps) simp
  qed
  from assms have b: "Atomics_wait pf ?w1 = Atomics_wait pf ?w2"
    by (subst Atomics_wait.simps) (simp add: serving_def worker_turn_def)
  from assms have c: "Atomics_wait pf ?w2 = (signal ?w2 \<noteq> 1, ?w2)"
    by (subst Atomics_wait.simps) (simp add: serving_def worker_turn_def onCall_fields)
  from a b c show ?thesis by simp
qed


lemma postMessage_Inr:
  "postMessage q message tr = Inr q' \<Longrightarrow> \<exists>m. q' = q @ [(m, tr)]"
  by (auto simp: postMessage_def split: if_splits option.splits)

text \<open>
  Every session that the factory makes is serving, and a call leaves a serving session
  serving: so is every session of a host that came about without a collection.
\<close>

lemma run_serving:
  assumes "serving w"
  shows "serving (snd (run classify pf w id' this args))"
proof (cases "run_send classify w id' this args")
  case (Pair e w1)
  show ?thesis
  proof (cases e)
    case (Some x)
    with Pair have "w1 = w\<lparr>signal := 1\<rparr>"
      by (auto simp: run_send_def Let_def split: option.splits sum.splits)
    with Pair Some assms show ?thesis
      by (simp add: run_def serving_def)
  next
    case None
    with Pair obtain c q where c: "classify = Some c"
      and q: "postMessage (worker_port w) (call_message id' this args) (filter c args) = Inr q"
      and w1: "w1 = w\<lparr>signal := 1, worker_port := q\<rparr>"
      by (auto simp: run_send_def Let_def split: option.splits sum.splits)
    from postMessage_Inr [OF q] assms obtain m where "q = [(m, filter c args)]"
      by (auto simp: serving_def)
    with w1 have w1': "w1 = w\<lparr>signal := 1, worker_port := [(m, filter c args)]\<rparr>"
      by simp
    let ?w2 = "onCall pf (w\<lparr>signal := 1, listening := True, worker_inbox := [], worker_port := []\<rparr>) m"
    from assms have "serving ?w2"
      by (simp add: serving_def onCall_fields)
    with Pair None w1' Atomics_wait_serving [OF assms, of pf m "filter c args"] show ?thesis
      by (simp add: run_def receiveMessageOnPort_def Let_def serving_def
          split: bool.splits list.splits prod.splits)
  qed
qed

lemma postMessage_open:
  "postMessage [] OpenMessageData [portForWorker] = Inr [(OpenMessageData, [portForWorker])]"
  by (simp add: postMessage_def structuredClone_OpenMessageData)
    (simp add: transferable_def portForWorker_def)

lemma yellowlet_serving:
  "list_all serving h \<Longrightarrow> list_all serving (snd (yellowlet pf h f body))"
  by (simp add: yellowlet_def new_Worker_def postMessage_open serving_def Let_def)

lemma steps_serving:
  assumes "list_all (\<lambda>e. \<not> is_Collect e) es" and "list_all serving h"
  shows "list_all serving (steps classify pf h es)"
  using assms
proof (induction es arbitrary: h)
  case Nil
  then show ?case by simp
next
  case (Cons e es)
  have "list_all serving (step classify pf h e)"
  proof (cases e)
    case (Wrap f body)
    with Cons.prems(2) show ?thesis
      by (simp add: yellowlet_serving)
  next
    case (Call k id' this args)
    show ?thesis
    proof (cases "k < length h")
      case True
      with Cons.prems(2) have "serving (h ! k)"
        by (simp add: list_all_length)
      then have "serving (snd (run classify pf (h ! k) id' this args))"
        by (rule run_serving)
      with Cons.prems(2) have "list_all serving (h[k := snd (run classify pf (h ! k) id' this args)])"
        by (auto simp: list_all_iff dest!: subsetD [OF set_update_subset_insert])
      with Call True show ?thesis
        by (auto simp: invoke_def split: prod.splits)
    next
      case False
      with Call Cons.prems(2) show ?thesis
        by (simp add: invoke_def)
    qed
  next
    case (Collect k)
    with Cons.prems(1) show ?thesis by simp
  next
    case (Elapse t)
    with Cons.prems(2) show ?thesis by simp
  qed
  with Cons.IH Cons.prems(1) show ?case by simp
qed

section \<open>The two ends of a call, each on its own\<close>

text \<open>
  On a call message the worker runs the computation on the this-value and the arguments
  of the message, and answers with the id of the message: fulfilled with the value, or
  rejected with the reason (here a plain one), and only then sets the signal to 2.
\<close>

lemma onCall_resolves:
  assumes "worker_f w that args = Resolves v" and "plain v"
  shows "onCall pf w (CallMessageData id' that args) =
    w\<lparr>parent_inbox := parent_inbox w @ [(FulfilledMessageData (JStr id') v, [])],
      signal := 2\<rparr>"
proof -
  from assms(2) have "plain (FulfilledMessageData (JStr id') v)"
    by (simp add: FulfilledMessageData_def)
  with assms show ?thesis
    by (simp add: onCall_def CallMessageData_def settle_def postMessage_plain
        plain_not_isTransferable)
qed

lemma onCall_rejects:
  assumes "worker_f w that args = Rejects e" and "plain e"
  shows "onCall pf w (CallMessageData id' that args) =
    w\<lparr>parent_inbox := parent_inbox w @ [(RejectedMessageData (JStr id') e, [])],
      signal := 2\<rparr>"
proof -
  from assms(2) have "plain (RejectedMessageData (JStr id') e)"
    by (simp add: RejectedMessageData_def)
  with assms show ?thesis
    by (simp add: onCall_def CallMessageData_def settle_def postMessage_plain
        plain_not_isTransferable)
qed

text \<open>
  Had the caller drained a settle message with its own id, lines 176 to 181 would return
  the value of a fulfilled one and throw the reason of a rejected one.
\<close>

lemma run_result_fulfilled:
  "run_result id' (Some (FulfilledMessageData (JStr id') v)) = Returns v"
  by (simp add: run_result_def FulfilledMessageData_def opt_get_def)

lemma run_result_rejected:
  "run_result id' (Some (RejectedMessageData (JStr id') e)) = Throws e"
  by (simp add: run_result_def RejectedMessageData_def opt_get_def)

section \<open>No call returns a value\<close>

text \<open>
  Nothing of the module posts on \<^verbatim>\<open>portForWorker\<close>: the worker answers with
  \<^verbatim>\<open>globalThis.postMessage\<close>. So the caller's port stays empty, and a call of a wrapper
  whose port is empty throws or blocks, whatever the computation does.
\<close>

lemma run_never_returns:
  "caller_port w = [] \<Longrightarrow> fst (run classify pf w id' this args) \<noteq> Returns v"
  by (auto simp: run_def run_send_def postMessage_def receiveMessageOnPort_def run_result_def
      Let_def
      split: sum.splits prod.splits option.splits bool.splits if_splits list.splits
      dest!: Atomics_wait_keeps)

lemma yellowlet_caller_port:
  "list_all (\<lambda>w. caller_port w = []) h \<Longrightarrow>
   list_all (\<lambda>w. caller_port w = []) (snd (yellowlet pf h f body))"
  by (simp add: yellowlet_def new_Worker_def postMessage_def Let_def split: sum.splits)

lemma invoke_caller_port:
  assumes "list_all (\<lambda>w. caller_port w = []) h"
    and "invoke classify pf h k id' this args = Some (out, h')"
  shows "list_all (\<lambda>w. caller_port w = []) h'"
proof -
  from assms(2) obtain w' where k: "k < length h"
    and r: "run classify pf (h ! k) id' this args = (out, w')" and h': "h' = h[k := w']"
    by (auto simp: invoke_def split: if_splits prod.splits)
  from assms(1) k have "caller_port (h ! k) = []"
    by (simp add: list_all_length)
  with run_keeps(2) [OF r] have "caller_port w' = []" .
  with assms(1) h' show ?thesis
    by (auto simp: list_all_iff dest: subsetD [OF set_update_subset_insert])
qed

lemma finalize_caller_port:
  "list_all (\<lambda>w. caller_port w = []) h \<Longrightarrow> list_all (\<lambda>w. caller_port w = []) (finalize h k)"
  by (auto simp: finalize_def list_all_iff list_all_length
      dest!: subsetD [OF set_update_subset_insert])

lemma step_caller_port:
  "list_all (\<lambda>w. caller_port w = []) h \<Longrightarrow>
   list_all (\<lambda>w. caller_port w = []) (step classify pf h e)"
  by (cases e)
    (auto simp: yellowlet_caller_port finalize_caller_port
      split: option.splits intro: invoke_caller_port)

lemma steps_caller_port:
  "list_all (\<lambda>w. caller_port w = []) h \<Longrightarrow>
   list_all (\<lambda>w. caller_port w = []) (steps classify pf h es)"
  by (induction es arbitrary: h) (auto simp: step_caller_port)

lemma no_call_returns:
  assumes "invoke classify pf (steps classify pf [] es) k id' this args = Some (out, h')"
  shows "out \<noteq> Returns v"
proof -
  have "list_all (\<lambda>w. caller_port w = []) (steps classify pf [] es)"
    by (rule steps_caller_port) simp
  with assms have "caller_port (steps classify pf [] es ! k) = []"
    by (auto simp: invoke_def list_all_length split: if_splits)
  then have "fst (run classify pf (steps classify pf [] es ! k) id' this args) \<noteq> Returns v"
    by (rule run_never_returns)
  with assms show ?thesis
    by (auto simp: invoke_def split: if_splits prod.splits)
qed

section \<open>Evaluating the scenarios\<close>

text \<open>The definitions that the evaluation of a scenario unfolds.\<close>

lemmas scenario_defs =
  yellowlet_def invoke_def run_def run_send_def postMessage_def OpenMessageData_def
  portForWorker_def signalSharedBuffer_def new_Worker_def call_message_def CallMessageData_def
  Atomics_wait.simps worker_turn_def onMessage_def onCall_def settle_def opt_get_def
  FulfilledMessageData_def RejectedMessageData_def double_def boom_def boom_error_def
  isTransferable_def receiveMessageOnPort_def run_result_def Let_def double_host_def
  boom_host_def node_def missing_container_def TypeError_def ReferenceError_def
  DataCloneError_def empty_object_def finalize_def double_function_def boom_function_def
  g_function_def return_this_function_def btoa_raises_def transferable_def transfer_only_def received_chain_def
  kept_props_def

section \<open>Returning the value of the computation\<close>

text \<open>
  C1, on the scenario \<^verbatim>\<open>wrap(x => x * 2)\<close> then \<^verbatim>\<open>handle(21)\<close>. The factory gives
  the wrapper 0. Its call does not return 42: with the classifier unbound, as in the file,
  it throws the ReferenceError of line 166; with the classifier bound it throws the
  TypeError of line 174, because the worker has computed 42 and posted the fulfilled
  message with the matching id to the \<^verbatim>\<open>Worker\<close> object, while the caller's port, which
  \<^verbatim>\<open>run\<close> drains, is empty.
\<close>

theorem double_21_does_not_return:
  "fst (yellowlet node [] double_function double) = Inr 0 \<and>
   map_option fst (invoke None node double_host 0 ''k3x9'' JUndefined [JNum 21])
     = Some (Throws (ReferenceError ''isTransferable is not defined'')) \<and>
   map_option fst
     (invoke (Some (isTransferable node)) node double_host 0 ''k3x9'' JUndefined [JNum 21])
     = Some (Throws missing_container) \<and>
   map_option (map parent_inbox \<circ> snd)
     (invoke (Some (isTransferable node)) node double_host 0 ''k3x9'' JUndefined [JNum 21])
     = Some [[(FulfilledMessageData (JStr ''k3x9'') (JNum 42), [])]] \<and>
   map_option (map caller_port \<circ> snd)
     (invoke (Some (isTransferable node)) node double_host 0 ''k3x9'' JUndefined [JNum 21])
     = Some [[]]"
  by (simp add: scenario_defs)

section \<open>Raising the error of the computation\<close>

text \<open>
  C2, on the scenario \<^verbatim>\<open>wrap(() => { throw new Error("boom") })\<close> then
  \<^verbatim>\<open>handle()\<close>. The call throws, but not the error of the computation: the rejected
  message that carries "boom" lies at the \<^verbatim>\<open>Worker\<close> object, and the call throws the
  ReferenceError of line 166 (classifier unbound) or the TypeError of line 174 (classifier
  bound), neither of which is that error.
\<close>

theorem boom_is_not_propagated:
  "fst (yellowlet node [] boom_function boom) = Inr 0 \<and>
   map_option fst (invoke None node boom_host 0 ''k3x9'' JUndefined [])
     = Some (Throws (ReferenceError ''isTransferable is not defined'')) \<and>
   map_option fst (invoke (Some (isTransferable node)) node boom_host 0 ''k3x9'' JUndefined [])
     = Some (Throws missing_container) \<and>
   ReferenceError ''isTransferable is not defined'' \<noteq> boom_error \<and>
   missing_container \<noteq> boom_error \<and>
   map_option (map parent_inbox \<circ> snd)
     (invoke (Some (isTransferable node)) node boom_host 0 ''k3x9'' JUndefined [])
     = Some [[(RejectedMessageData (JStr ''k3x9'') boom_error, [])]]"
  by (simp add: scenario_defs)

section \<open>Protocol errors\<close>

text \<open>
  C3, as stated, fails: on a drained fulfilled message whose id is not the call's, and on
  a drained message with the call's id whose type is neither fulfilled nor rejected, the
  call throws the empty object, a value with no property at all. It is the very value the
  call throws when it drains a rejected message of a computation that rejected with
  \<^verbatim>\<open>{}\<close>, so the two cannot be told apart.
\<close>

theorem protocol_error_empty_object_counterexample:
  "run_result ''k3x9'' (Some (FulfilledMessageData (JStr ''zz11'') (JNum 42)))
     = Throws (JObject [Object_prototype] []) \<and>
   run_result ''k3x9''
     (Some (JObject [Object_prototype] [(''type'', JStr ''settle''), (''id'', JStr ''k3x9'')]))
     = Throws (JObject [Object_prototype] []) \<and>
   run_result ''k3x9'' (Some (RejectedMessageData (JStr ''k3x9'') (JObject [Object_prototype] [])))
     = Throws (JObject [Object_prototype] [])"
  by (simp add: scenario_defs)

text \<open>
  C3, amended. For every drained message whose id is not the id of the call, or whose type
  is neither fulfilled nor rejected, the call throws the empty object \<^verbatim>\<open>{}\<close>, which
  has the prototype of plain objects and no property.
\<close>

theorem protocol_error_throws_empty_object:
  assumes "opt_get data ''id'' \<noteq> JStr id' \<or>
     (get_prop data ''type'' \<noteq> JStr ''fulfilled'' \<and> get_prop data ''type'' \<noteq> JStr ''rejected'')"
  shows "run_result id' (Some data) = Throws empty_object \<and>
    empty_object = JObject [Object_prototype] []"
  using assms by (auto simp: run_result_def empty_object_def)

theorem protocol_error_throws_empty_object_witness:
  "opt_get (FulfilledMessageData (JStr ''zz11'') (JNum 42)) ''id'' \<noteq> JStr ''k3x9'' \<and>
   run_result ''k3x9'' (Some (FulfilledMessageData (JStr ''zz11'') (JNum 42))) = Throws empty_object"
proof -
  have h: "opt_get (FulfilledMessageData (JStr ''zz11'') (JNum 42)) ''id'' \<noteq> JStr ''k3x9''"
    by (simp add: opt_get_def FulfilledMessageData_def)
  with protocol_error_throws_empty_object [of "FulfilledMessageData (JStr ''zz11'') (JNum 42)" "''k3x9''"]
  show ?thesis by simp
qed

section \<open>The signal discipline and sequential calls\<close>

text \<open>
  C4, on the scenario \<^verbatim>\<open>handle(1)\<close> then \<^verbatim>\<open>handle(2)\<close> on the wrapper of
  \<^verbatim>\<open>x => x * 2\<close>. Each call leaves the signal at 0, and the worker has computed 2 and 4;
  but both results lie at the \<^verbatim>\<open>Worker\<close> object and each call throws the TypeError of
  line 174 instead of returning its result. A call with an argument that cannot be cloned
  throws out of \<^verbatim>\<open>port.postMessage\<close>, after line 157 and before line 170, and leaves
  the signal at 1; so does every call when the classifier is unbound, as in the file.
\<close>

theorem sequential_calls_do_not_return:
  "(case invoke (Some (isTransferable node)) node double_host 0 ''a1b2'' JUndefined [JNum 1] of
      None \<Rightarrow> None
    | Some (out1, h1) \<Rightarrow>
        (case invoke (Some (isTransferable node)) node h1 0 ''c3d4'' JUndefined [JNum 2] of
           None \<Rightarrow> None
         | Some (out2, h2) \<Rightarrow>
             Some (out1, map signal h1, out2, map signal h2, map parent_inbox h2)))
   = Some (Throws missing_container, [0], Throws missing_container, [0],
       [[(FulfilledMessageData (JStr ''a1b2'') (JNum 2), []),
         (FulfilledMessageData (JStr ''c3d4'') (JNum 4), [])]]) \<and>
   map_option (\<lambda>(out, h). (out, map signal h))
     (invoke (Some (isTransferable node)) node double_host 0 ''e5f6'' JUndefined [g_function])
   = Some (Throws DataCloneError, [1]) \<and>
   map_option (\<lambda>(out, h). (out, map signal h))
     (invoke None node double_host 0 ''a1b2'' JUndefined [JNum 1])
   = Some (Throws (ReferenceError ''isTransferable is not defined''), [1])"
  by (simp add: scenario_defs)

section \<open>When the thread is created\<close>

text \<open>
  C6, as stated, fails: the factory alone, with no call of the wrapper after it, has
  created the worker thread, the channel and the signal word (at 0), and has posted the
  open message with the worker's port in its transfer list.
\<close>

theorem factory_creates_thread_counterexample:
  "length (snd (yellowlet node [] double_function double)) = 1 \<and>
   map worker_inbox (snd (yellowlet node [] double_function double))
     = [[(OpenMessageData, [portForWorker])]] \<and>
   map signal (snd (yellowlet node [] double_function double)) = [0] \<and>
   map terminated (snd (yellowlet node [] double_function double)) = [False]"
  by (simp add: scenario_defs)

text \<open>
  C6, amended. On a platform with a \<^verbatim>\<open>Worker\<close> class, for every function whose text
  \<^verbatim>\<open>btoa\<close> encodes, the factory itself creates the session: one more worker thread,
  alive, with the signal at 0, both ports empty and the open message posted to the worker;
  it returns the wrapper of that session. Without a \<^verbatim>\<open>Worker\<close> class it raises a
  ReferenceError, and on a text that \<^verbatim>\<open>btoa\<close> refuses an InvalidCharacterError, and
  creates nothing. A call of a wrapper creates no session.
\<close>

theorem thread_created_by_factory_only:
  "(typeof f = ''function'' \<and> has_Worker pf \<and> \<not> btoa_raises (function_source f) \<longrightarrow>
      (\<exists>w. yellowlet pf h f body = (Inr (length h), h @ [w]) \<and>
           signal w = 0 \<and> \<not> terminated w \<and>
           worker_inbox w = [(OpenMessageData, [portForWorker])] \<and>
           worker_port w = [] \<and> caller_port w = [])) \<and>
   (typeof f = ''function'' \<and> \<not> has_Worker pf \<longrightarrow>
      yellowlet pf h f body = (Inl (ReferenceError ''Worker is not defined''), h)) \<and>
   (typeof f = ''function'' \<and> has_Worker pf \<and> btoa_raises (function_source f) \<longrightarrow>
      yellowlet pf h f body = (Inl InvalidCharacterError, h)) \<and>
   (invoke classify pf' g k id' this args = Some (out, g') \<longrightarrow> length g' = length g)"
  by (auto simp: yellowlet_def new_Worker_def postMessage_open Let_def invoke_def
      split: prod.splits if_splits)

text \<open>
  The four parts at work: the factory on \<^verbatim>\<open>x => x * 2\<close>; the same on a platform
  without a \<^verbatim>\<open>Worker\<close> class; the factory on \<^verbatim>\<open>() => "\<rightarrow>"\<close>, whose text has the
  code unit 8594; and a call of the wrapper, which leaves the host with its one session.
\<close>

theorem thread_created_by_factory_only_witness:
  "(typeof double_function = ''function'' \<and> has_Worker node \<and>
    \<not> btoa_raises (function_source double_function)) \<and>
   (\<exists>w. yellowlet node [] double_function double = (Inr 0, [w]) \<and>
        signal w = 0 \<and> \<not> terminated w \<and>
        worker_inbox w = [(OpenMessageData, [portForWorker])] \<and>
        worker_port w = [] \<and> caller_port w = []) \<and>
   \<not> has_Worker (node\<lparr>has_Worker := False\<rparr>) \<and>
   yellowlet (node\<lparr>has_Worker := False\<rparr>) [] double_function double
     = (Inl (ReferenceError ''Worker is not defined''), []) \<and>
   btoa_raises (function_source (JFunction [] 0 [40, 41, 32, 61, 62, 32, 34, 8594, 34])) \<and>
   yellowlet node [] (JFunction [] 0 [40, 41, 32, 61, 62, 32, 34, 8594, 34]) double
     = (Inl InvalidCharacterError, []) \<and>
   invoke None node double_host 0 ''k3x9'' JUndefined [JNum 21]
     = Some (Throws (ReferenceError ''isTransferable is not defined''),
             double_host[0 := (double_host ! 0)\<lparr>signal := 1\<rparr>]) \<and>
   length (double_host[0 := (double_host ! 0)\<lparr>signal := 1\<rparr>]) = length double_host"
proof -
  have i: "invoke None node double_host 0 ''k3x9'' JUndefined [JNum 21]
     = Some (Throws (ReferenceError ''isTransferable is not defined''),
             double_host[0 := (double_host ! 0)\<lparr>signal := 1\<rparr>])"
    by (simp add: scenario_defs)
  have d: "typeof double_function = ''function'' \<and> has_Worker node \<and>
      \<not> btoa_raises (function_source double_function)"
    by (simp add: double_function_def node_def btoa_raises_def)
  have a: "typeof (JFunction [] 0 [40, 41, 32, 61, 62, 32, 34, 8594, 34]) = ''function'' \<and>
      btoa_raises (function_source (JFunction [] 0 [40, 41, 32, 61, 62, 32, 34, 8594, 34]))"
    by (simp add: btoa_raises_def)
  from d i thread_created_by_factory_only
    [where f = double_function and pf = node and h = "[]" and body = double
      and classify = None and pf' = node and g = double_host and k = 0 and id' = "''k3x9''"
      and this = JUndefined and args = "[JNum 21]"
      and out = "Throws (ReferenceError ''isTransferable is not defined'')"
      and g' = "double_host[0 := (double_host ! 0)\<lparr>signal := 1\<rparr>]"]
  have 1: "\<exists>w. yellowlet node [] double_function double = (Inr 0, [w]) \<and>
        signal w = 0 \<and> \<not> terminated w \<and>
        worker_inbox w = [(OpenMessageData, [portForWorker])] \<and>
        worker_port w = [] \<and> caller_port w = []"
    and 4: "length (double_host[0 := (double_host ! 0)\<lparr>signal := 1\<rparr>]) = length double_host"
    by simp_all
  from d thread_created_by_factory_only
    [where f = double_function and pf = "node\<lparr>has_Worker := False\<rparr>" and h = "[]"
      and body = double]
  have 2: "yellowlet (node\<lparr>has_Worker := False\<rparr>) [] double_function double
     = (Inl (ReferenceError ''Worker is not defined''), [])"
    by simp
  from a d thread_created_by_factory_only
    [where f = "JFunction [] 0 [40, 41, 32, 61, 62, 32, 34, 8594, 34]" and pf = node
      and h = "[]" and body = double]
  have 3: "yellowlet node [] (JFunction [] 0 [40, 41, 32, 61, 62, 32, 34, 8594, 34]) double
     = (Inl InvalidCharacterError, [])"
    by simp
  from d a i 1 2 3 4 show ?thesis
    by simp
qed

section \<open>Idle sessions\<close>

text \<open>
  C7, as stated, fails: after the factory, one call and 5 units of time with no call, the
  worker of the session is not terminated; and a call made after that runs on the same
  session, the host still has exactly one.
\<close>

theorem idle_worker_not_terminated_counterexample:
  "map terminated
     (steps (Some (isTransferable node)) node []
        [Wrap double_function double, Call 0 ''a1b2'' JUndefined [JNum 1], Elapse 5])
     = [False] \<and>
   map terminated
     (steps (Some (isTransferable node)) node []
        [Wrap double_function double, Call 0 ''a1b2'' JUndefined [JNum 1], Elapse 5,
         Call 0 ''c3d4'' JUndefined [JNum 2]])
     = [False]"
  by (simp add: scenario_defs)

lemma step_alive:
  assumes "\<not> is_Collect e" and "list_all (\<lambda>w. \<not> terminated w) h"
  shows "list_all (\<lambda>w. \<not> terminated w) (step classify pf h e)"
proof (cases e)
  case (Wrap f body)
  with assms(2) show ?thesis
    by (simp add: yellowlet_def new_Worker_def postMessage_def Let_def split: sum.splits)
next
  case (Call k id' this args)
  show ?thesis
  proof (cases "invoke classify pf h k id' this args")
    case None
    with Call assms(2) show ?thesis by simp
  next
    case (Some r)
    then obtain out w' where k: "k < length h"
      and r: "run classify pf (h ! k) id' this args = (out, w')" and h': "r = (out, h[k := w'])"
      by (auto simp: invoke_def split: if_splits prod.splits)
    from assms(2) k have "\<not> terminated (h ! k)"
      by (simp add: list_all_length)
    with run_keeps(1) [OF r] have "\<not> terminated w'"
      by simp
    with assms(2) have "list_all (\<lambda>w. \<not> terminated w) (h[k := w'])"
      by (auto simp: list_all_iff dest!: subsetD [OF set_update_subset_insert])
    with Call Some h' show ?thesis by simp
  qed
next
  case (Collect k)
  with assms(1) show ?thesis by simp
next
  case (Elapse t)
  with assms(2) show ?thesis by simp
qed

text \<open>
  C7, amended. No session is terminated for being idle: over every sequence of factory
  calls, wrapper calls and lapses of time of any length, the workers that were alive stay
  alive (the one thing that terminates a worker is the finalization callback, when its
  wrapper has been collected); a lapse of time changes nothing, and a call of a wrapper
  runs on the session the factory made and creates none.
\<close>

theorem no_idle_termination:
  assumes "list_all (\<lambda>e. \<not> is_Collect e) es" and "list_all (\<lambda>w. \<not> terminated w) h"
  shows "list_all (\<lambda>w. \<not> terminated w) (steps classify pf h es) \<and>
    step classify pf h (Elapse t) = h \<and>
    length (step classify pf h (Call k id' this args)) = length h"
proof -
  from assms have "list_all (\<lambda>w. \<not> terminated w) (steps classify pf h es)"
  proof (induction es arbitrary: h)
    case Nil
    then show ?case by simp
  next
    case (Cons e es)
    from Cons.prems have "list_all (\<lambda>w. \<not> terminated w) (step classify pf h e)"
      by (simp add: step_alive)
    with Cons.IH Cons.prems(1) show ?case by simp
  qed
  moreover have "length (step classify pf h (Call k id' this args)) = length h"
    by (auto simp: invoke_def split: option.splits if_splits prod.splits)
  ultimately show ?thesis by simp
qed

theorem no_idle_termination_witness:
  "list_all (\<lambda>e. \<not> is_Collect e)
     [Wrap double_function double, Call 0 ''a1b2'' JUndefined [JNum 1], Elapse 5] \<and>
   list_all (\<lambda>w. \<not> terminated w) [] \<and>
   list_all (\<lambda>w. \<not> terminated w)
     (steps None node []
        [Wrap double_function double, Call 0 ''a1b2'' JUndefined [JNum 1], Elapse 5])"
  using no_idle_termination
    [of "[Wrap double_function double, Call 0 ''a1b2'' JUndefined [JNum 1], Elapse 5]"
      "[]" None node]
  by simp

section \<open>A call while the signal is not available\<close>

text \<open>
  C8, as stated, fails. As the file is, a first call raises the ReferenceError of line 166
  and leaves the signal at 1; the next call finds the signal at 1 and raises the same
  ReferenceError, not a busy error. With the classifier bound, a first call with a
  function as argument throws the DataCloneError and leaves the signal at 1; the next
  call finds the signal at 1 and does not fail fast: it posts its call message, the worker
  runs the computation on it and answers 42, and the call goes on to throw the TypeError
  of line 174, not a busy error.
\<close>

theorem no_busy_error_counterexample:
  "(case invoke (Some (isTransferable node)) node double_host 0 ''a1b2'' JUndefined
           [g_function] of
      None \<Rightarrow> None
    | Some (out1, h1) \<Rightarrow>
        (case invoke (Some (isTransferable node)) node h1 0 ''c3d4'' JUndefined [JNum 21] of
           None \<Rightarrow> None
         | Some (out2, h2) \<Rightarrow> Some (out1, map signal h1, out2, map parent_inbox h2)))
   = Some (Throws DataCloneError, [1], Throws missing_container,
       [[(FulfilledMessageData (JStr ''c3d4'') (JNum 42), [])]]) \<and>
   (case invoke None node double_host 0 ''a1b2'' JUndefined [JNum 1] of
      None \<Rightarrow> None
    | Some (out1, h1) \<Rightarrow>
        (case invoke None node h1 0 ''c3d4'' JUndefined [JNum 21] of
           None \<Rightarrow> None
         | Some (out2, h2) \<Rightarrow> Some (out1, map signal h1, out2, map worker_port h2)))
   = Some (Throws (ReferenceError ''isTransferable is not defined''), [1],
       Throws (ReferenceError ''isTransferable is not defined''), [[]])"
  by (simp add: scenario_defs)

text \<open>
  C8, amended. The wrapper has no busy check and raises no busy error: it never reads the
  signal before it overwrites it with 1, so a call, and its sending part, do the same
  whatever the signal holds when the call starts. As the file is, with the classifier
  unbound, that is to raise the ReferenceError of line 166 with the signal left at 1 and
  nothing posted; with the classifier of the module bound, a call on a plain this-value
  (or the global object) with plain arguments posts its call message.
\<close>

theorem run_ignores_signal_on_entry:
  "run classify pf (w\<lparr>signal := s\<rparr>) id' this args = run classify pf w id' this args \<and>
   run_send classify (w\<lparr>signal := s\<rparr>) id' this args = run_send classify w id' this args \<and>
   run None pf (w\<lparr>signal := s\<rparr>) id' this args =
     (Throws (ReferenceError ''isTransferable is not defined''), w\<lparr>signal := 1\<rparr>) \<and>
   (plain (if this = JGlobalThis then JUndefined else this) \<and> list_all plain args \<longrightarrow>
      run_send (Some (isTransferable pf')) (w\<lparr>signal := s\<rparr>) id' this args =
        (None, w\<lparr>signal := 1,
                 worker_port := worker_port w @ [(call_message id' this args, [])]\<rparr>))"
proof -
  have "plain (call_message id' this args)"
    if "plain (if this = JGlobalThis then JUndefined else this)" and "list_all plain args"
    using that by (simp add: call_message_def plain_CallMessageData)
  then show ?thesis
    by (simp add: run_def run_send_def filter_isTransferable_plain postMessage_plain)
qed

theorem run_ignores_signal_on_entry_witness:
  "plain JUndefined \<and> list_all plain [JNum 21] \<and>
   run_send (Some (isTransferable node)) ((double_host ! 0)\<lparr>signal := 1\<rparr>) ''c3d4'' JUndefined
       [JNum 21] =
     (None, (double_host ! 0)\<lparr>signal := 1,
        worker_port := worker_port (double_host ! 0) @
          [(call_message ''c3d4'' JUndefined [JNum 21], [])]\<rparr>)"
  using run_ignores_signal_on_entry
    [where this = JUndefined and args = "[JNum 21]" and pf' = node and w = "double_host ! 0"
      and s = 1 and id' = "''c3d4''", THEN conjunct2, THEN conjunct2, THEN conjunct2]
  by simp

section \<open>The argument of the factory\<close>

text \<open>
  C9. For every argument that is not a function the factory throws the TypeError
  "f is not a function" and leaves the host as it was: no session, hence no thread, is
  created.
\<close>

theorem yellowlet_rejects_non_function:
  "typeof f \<noteq> ''function'' \<Longrightarrow>
   yellowlet pf h f body = (Inl (TypeError ''f is not a function''), h)"
  by (simp add: yellowlet_def)

theorem yellowlet_rejects_non_function_witness:
  "typeof (JStr ''double'') \<noteq> ''function'' \<and>
   yellowlet node [] (JStr ''double'') double = (Inl (TypeError ''f is not a function''), [])"
  using yellowlet_rejects_non_function [of "JStr ''double''" node "[]" double]
  by simp

section \<open>The this-value of the call message\<close>



end
